theory Spec2Isabelle
  imports Main "HOL-Library.Word"
begin

section \<open>Data model\<close>

text \<open>
  The hierarchical synthesis of caterpillar translates a logic network into a reversible
  circuit. A mapping strategy yields steps (node, action); the driver
  \<open>logic_network_synthesis_impl\<close> executes them on a quantum network, a node-to-qubit
  map and a stack of free ancillae.

  Nodes of the logic network are their indices (\<open>node_to_index\<close> and
  \<open>index_to_node\<close> are the identity, as in mockturtle's networks), written as naturals.
  Qubit indices and the ancilla counter are \<open>uint32_t\<close> that only count upwards from
  zero; they are naturals here, exact for every run on fewer than \<open>2^32\<close> qubits. The
  reference counters of the in-place strategy are decremented and compared with zero, so
  they are 32-bit words.
\<close>

type_synonym node = nat
type_synonym signal = "node \<times> bool"
type_synonym qubit = nat
type_synonym truth_table = "bool list"

definition get_node :: "signal \<Rightarrow> node" where
  "get_node f = fst f"


text \<open>
  The capability set of a LogicNetwork that the strategies and the driver use. The
  network class itself is a template parameter of the source, so each operation is a field.
  A network type without \<open>is_and\<close> (and so on: the \<open>if constexpr\<close> guards) has the
  constantly false predicate; \<open>has_node_function\<close> is the one capability whose branch
  has no node predicate of its own. \<open>topo_nodes\<close> is the order in which
  \<open>topo_view\<close> visits the nodes, \<open>nodes\<close> the order of the network's own
  \<open>foreach_node\<close>.
\<close>

record logic_network =
  nodes :: "node list"
  topo_nodes :: "node list"
  pis :: "node list"
  pos :: "signal list"
  fanins :: "node \<Rightarrow> signal list"
  fanout_size :: "node \<Rightarrow> 32 word"
  is_constant :: "node \<Rightarrow> bool"
  is_pi :: "node \<Rightarrow> bool"
  is_and :: "node \<Rightarrow> bool"
  is_or :: "node \<Rightarrow> bool"
  is_xor :: "node \<Rightarrow> bool"
  is_xor3 :: "node \<Rightarrow> bool"
  is_maj :: "node \<Rightarrow> bool"
  has_node_function :: bool
  node_function :: "node \<Rightarrow> truth_table"
  get_constant :: "bool \<Rightarrow> signal"
  constant_value :: "node \<Rightarrow> bool"

datatype mapping_strategy_action =
    compute_action
  | uncompute_action
  | compute_inplace_action nat
  | uncompute_inplace_action nat

type_synonym step = "node \<times> mapping_strategy_action"

section \<open>Mapping strategies\<close>

text \<open>
  \<open>steps.insert(it, x)\<close> on a vector: the element is placed before position \<open>it\<close>
  and the returned iterator points at it, so it has the same index.
\<close>

definition vector_insert :: "nat \<Rightarrow> 'a \<Rightarrow> 'a list \<Rightarrow> 'a list" where
  "vector_insert it x xs = take it xs @ x # drop it xs"

definition is_driver :: "logic_network \<Rightarrow> node \<Rightarrow> bool" where
  "is_driver ntk n = (n \<in> set (map get_node (pos ntk)))"

text \<open>
  The body of the node loop of \<open>bennett_mapping_strategy\<close>, on the pair of the step
  vector and the iterator \<open>it\<close>. After the compute step the iterator is advanced; after
  the uncompute step it is not.
\<close>

definition bennett_visit :: "logic_network \<Rightarrow> step list \<times> nat \<Rightarrow> node \<Rightarrow> step list \<times> nat" where
  "bennett_visit ntk st n =
     (case st of (stps, it) \<Rightarrow>
        if is_constant ntk n \<or> is_pi ntk n then (stps, it)
        else
          let stps1 = vector_insert it (n, compute_action) stps;
              it1 = it + 1
          in if \<not> is_driver ntk n
             then (vector_insert it1 (n, uncompute_action) stps1, it1)
             else (stps1, it1))"

definition bennett_mapping_strategy :: "logic_network \<Rightarrow> step list" where
  "bennett_mapping_strategy ntk = fst (foldl (bennett_visit ntk) ([], 0) (topo_nodes ntk))"

text \<open>
  The in-place strategy keeps a reference counter per node (the network's value field).
  \<open>decr_value\<close> returns the decremented value; the counter is unsigned and wraps.
  \<open>target\<close> is the \<open>int\<close> of the source, \<open>-1\<close> for none.
\<close>

definition init_values :: "logic_network \<Rightarrow> node \<Rightarrow> 32 word" where
  "init_values ntk = foldl (\<lambda>vals n. vals(n := fanout_size ntk n)) (\<lambda>_. 0) (nodes ntk)"

fun decr_fanins :: "signal list \<Rightarrow> (node \<Rightarrow> 32 word) \<times> int \<Rightarrow> (node \<Rightarrow> 32 word) \<times> int" where
  "decr_fanins [] acc = acc"
| "decr_fanins (f # fs) (vals, target) =
     (let v = vals (get_node f) - 1;
          vals1 = vals(get_node f := v)
      in decr_fanins fs
           (vals1, if v = 0 \<and> target = -1 then int (get_node f) else target))"

record inplace_state =
  node_values :: "node \<Rightarrow> 32 word"
  stps :: "step list"
  iter :: nat

definition bennett_inplace_visit :: "logic_network \<Rightarrow> inplace_state \<Rightarrow> node \<Rightarrow> inplace_state" where
  "bennett_inplace_visit ntk st n =
     (if is_constant ntk n \<or> is_pi ntk n then st
      else
        case decr_fanins (fanins ntk n) (node_values st, -1) of (vals, target) \<Rightarrow>
          if target \<noteq> -1 \<and> \<not> is_driver ntk n \<and> (is_xor ntk n \<or> is_xor3 ntk n)
          then
            \<lparr> node_values = vals,
              stps = vector_insert (iter st + 1) (n, uncompute_inplace_action (nat target))
                       (vector_insert (iter st) (n, compute_inplace_action (nat target)) (stps st)),
              iter = iter st + 1 \<rparr>
          else
            let stps1 = vector_insert (iter st) (n, compute_action) (stps st);
                it1 = iter st + 1
            in if \<not> is_driver ntk n
               then \<lparr> node_values = vals, stps = vector_insert it1 (n, uncompute_action) stps1, iter = it1 \<rparr>
               else \<lparr> node_values = vals, stps = stps1, iter = it1 \<rparr>)"

definition bennett_inplace_run :: "logic_network \<Rightarrow> node list \<Rightarrow> inplace_state" where
  "bennett_inplace_run ntk ns =
     foldl (bennett_inplace_visit ntk) \<lparr> node_values = init_values ntk, stps = [], iter = 0 \<rparr> ns"

definition bennett_inplace_mapping_strategy :: "logic_network \<Rightarrow> step list" where
  "bennett_inplace_mapping_strategy ntk = stps (bennett_inplace_run ntk (nodes ntk))"

text \<open>
  The pebbling strategy. The solver \<open>pebble_solver_man\<close> is declared in
  \<open>sat.hpp\<close>, outside the synthesis code: it is the parameter \<open>solver\<close>, from a
  network and a number of pebbles to the steps of \<open>get_steps\<close>. The constructor runs the solver on its
  argument \<open>pebbles\<close>; \<open>set_pebble_limit\<close> stores its argument in the field
  \<open>limit_\<close> (here \<open>limit\<close>), initially 50.
\<close>

type_synonym pebble_solver = "logic_network \<Rightarrow> 32 word \<Rightarrow> step list"

record pebbling_strategy =
  steps :: "step list"
  limit :: "32 word"

definition pebbling_mapping_strategy :: "pebble_solver \<Rightarrow> logic_network \<Rightarrow> 32 word \<Rightarrow> pebbling_strategy" where
  "pebbling_mapping_strategy solver ntk pebbles = \<lparr> steps = solver ntk pebbles, limit = 50 \<rparr>"

definition set_pebble_limit :: "32 word \<Rightarrow> pebbling_strategy \<Rightarrow> pebbling_strategy" where
  "set_pebble_limit l s = s \<lparr> limit := l \<rparr>"

definition foreach_step :: "pebbling_strategy \<Rightarrow> step list" where
  "foreach_step s = steps s"


section \<open>Quantum network and driver state\<close>

text \<open>
  The gates the driver adds to the quantum network: \<open>pauli_x\<close> on a qubit, \<open>cx\<close>
  with control and target, \<open>mcx\<close> with a vector of controls and a vector of targets.
  The diagnostics written to \<open>std::cerr\<close> and the gates are kept in one chronological
  list of events, so that their relative order is part of the model. The lines that
  \<open>verbose\<close> prints to standard output are not modelled.
\<close>

datatype gate = pauli_x qubit | cx qubit qubit | mcx "qubit list" "qubit list"

datatype event = add_gate gate | cerr string


record logic_network_synthesis_params =
  pebble_limit :: "32 word"
  verbose :: bool

record synthesis_state =
  num_qubits :: nat
  events :: "event list"
  node_to_qubit :: "node \<Rightarrow> qubit"
  free_ancillae :: "qubit list"
  required_ancillae :: nat

definition qnet_gates :: "synthesis_state \<Rightarrow> gate list" where
  "qnet_gates s = concat (map (\<lambda>e. case e of add_gate g \<Rightarrow> [g] | cerr _ \<Rightarrow> []) (events s))"

definition cerr_lines :: "synthesis_state \<Rightarrow> string list" where
  "cerr_lines s = concat (map (\<lambda>e. case e of add_gate _ \<Rightarrow> [] | cerr l \<Rightarrow> [l]) (events s))"

definition emit :: "event list \<Rightarrow> synthesis_state \<Rightarrow> synthesis_state" where
  "emit es s = s \<lparr> events := events s @ es \<rparr>"

definition add_qubit :: "synthesis_state \<Rightarrow> synthesis_state" where
  "add_qubit s = s \<lparr> num_qubits := num_qubits s + 1 \<rparr>"





section \<open>Node expansion\<close>

















text \<open>
  \<open>compute_node\<close>: the first gate kind that matches decides. A literal \<open>l\<close> is split
  into the node \<open>l >> 1\<close> and the polarity \<open>l & 1\<close>.
\<close>

definition lit_node :: "nat \<Rightarrow> node" where
  "lit_node l = l div 2"

definition lit_pol :: "nat \<Rightarrow> bool" where
  "lit_pol l = (l mod 2 = 1)"



section \<open>The synthesis driver\<close>


datatype mapping_strategy = Pebbling | Bennett | Bennett_inplace

text \<open>
  The strategy is constructed on the network alone (the pebbling strategy with its
  default argument \<open>pebbles = 0\<close>); a strategy with \<open>set_pebble_limit\<close> then receives
  the configured limit; then its steps are visited.
\<close>

definition strategy_steps ::
  "pebble_solver \<Rightarrow> mapping_strategy \<Rightarrow> logic_network \<Rightarrow> logic_network_synthesis_params \<Rightarrow> step list" where
  "strategy_steps solver strategy ntk ps =
     (case strategy of
        Pebbling \<Rightarrow>
          foreach_step (set_pebble_limit (pebble_limit ps) (pebbling_mapping_strategy solver ntk 0))
      | Bennett \<Rightarrow> bennett_mapping_strategy ntk
      | Bennett_inplace \<Rightarrow> bennett_inplace_mapping_strategy ntk)"






section \<open>Notions used in the statements\<close>

text \<open>A node that the strategies schedule: neither a constant nor a primary input.\<close>

definition gate_node :: "logic_network \<Rightarrow> node \<Rightarrow> bool" where
  "gate_node ntk n = (\<not> is_constant ntk n \<and> \<not> is_pi ntk n)"

text \<open>Step \<open>b\<close> follows step \<open>a\<close> immediately somewhere in a step list.\<close>

fun adjacent_steps :: "step \<Rightarrow> step \<Rightarrow> step list \<Rightarrow> bool" where
  "adjacent_steps a b (x # y # rest) = ((x = a \<and> y = b) \<or> adjacent_steps a b (y # rest))"
| "adjacent_steps a b _ = False"








section \<open>Example networks\<close>

text \<open>
  Inputs 1 and 2, the gates \<open>3 = AND(1, 2)\<close> and \<open>4 = AND(3, 2)\<close>, and the primary
  output 4; node 0 is the constant, without fan-out.
\<close>

definition two_and_network :: logic_network where
  "two_and_network =
     \<lparr> nodes = [0, 1, 2, 3, 4], topo_nodes = [0, 1, 2, 3, 4], pis = [1, 2],
       pos = [(4, False)],
       fanins = (\<lambda>n. if n = 3 then [(1, False), (2, False)]
                      else if n = 4 then [(3, False), (2, False)] else []),
       fanout_size = (\<lambda>n. if n = 0 then 0 else if n = 2 then 2 else 1),
       is_constant = (\<lambda>n. n = 0), is_pi = (\<lambda>n. n = 1 \<or> n = 2),
       is_and = (\<lambda>n. n = 3 \<or> n = 4), is_or = (\<lambda>_. False), is_xor = (\<lambda>_. False),
       is_xor3 = (\<lambda>_. False), is_maj = (\<lambda>_. False),
       has_node_function = False, node_function = (\<lambda>_. []),
       get_constant = (\<lambda>b. (0, b)), constant_value = (\<lambda>_. False) \<rparr>"










section \<open>The Bennett strategy\<close>

lemma vector_insert_split: "vector_insert (length xs) x (xs @ ys) = xs @ x # ys"
  by (simp add: vector_insert_def)

text \<open>
  The iterator splits the step vector into the part before it and the part after it. A
  compute step is added to the end of the first part; an uncompute step, after which the
  iterator stays, to the front of the second.
\<close>

lemma bennett_fold:
  "foldl (bennett_visit ntk) (pre @ suf, length pre) ns =
     (pre @ map (\<lambda>n. (n, compute_action)) (filter (gate_node ntk) ns)
        @ rev (map (\<lambda>n. (n, uncompute_action))
            (filter (\<lambda>n. \<not> is_driver ntk n) (filter (gate_node ntk) ns)))
        @ suf,
      length pre + length (filter (gate_node ntk) ns))"
proof (induction ns arbitrary: pre suf)
  case Nil
  then show ?case by simp
next
  case (Cons n ns)
  show ?case
  proof (cases "gate_node ntk n")
    case False
    then have "bennett_visit ntk (pre @ suf, length pre) n = (pre @ suf, length pre)"
      by (auto simp: bennett_visit_def gate_node_def)
    with False Cons.IH [of pre suf] show ?thesis by simp
  next
    case True
    show ?thesis
    proof (cases "is_driver ntk n")
      case True
      with \<open>gate_node ntk n\<close>
      have "bennett_visit ntk (pre @ suf, length pre) n =
              ((pre @ [(n, compute_action)]) @ suf, length (pre @ [(n, compute_action)]))"
        by (simp add: bennett_visit_def gate_node_def vector_insert_def)
      with True \<open>gate_node ntk n\<close> Cons.IH [of "pre @ [(n, compute_action)]" suf]
      show ?thesis by simp
    next
      case False
      with \<open>gate_node ntk n\<close>
      have "bennett_visit ntk (pre @ suf, length pre) n =
              ((pre @ [(n, compute_action)]) @ ((n, uncompute_action) # suf),
               length (pre @ [(n, compute_action)]))"
        using vector_insert_split [of "pre @ [(n, compute_action)]" "(n, uncompute_action)" suf]
        by (simp add: bennett_visit_def gate_node_def vector_insert_def Let_def)
      with False \<open>gate_node ntk n\<close>
        Cons.IH [of "pre @ [(n, compute_action)]" "(n, uncompute_action) # suf"]
      show ?thesis by simp
    qed
  qed
qed

lemma bennett_steps:
  "bennett_mapping_strategy ntk =
     map (\<lambda>n. (n, compute_action)) (filter (gate_node ntk) (topo_nodes ntk))
     @ rev (map (\<lambda>n. (n, uncompute_action))
         (filter (\<lambda>n. \<not> is_driver ntk n) (filter (gate_node ntk) (topo_nodes ntk))))"
  using bennett_fold [of ntk "[]" "[]" "topo_nodes ntk"]
  by (simp add: bennett_mapping_strategy_def)

text \<open>
  Claim C2 as stated: for a scheduled node that drives no output, Uncompute(n) follows
  Compute(n) immediately in the step stream. On \<open>two_and_network\<close> it does not: the
  stream is Compute(3), Compute(4), Uncompute(3).
\<close>

theorem bennett_uncompute_not_adjacent:
  "gate_node two_and_network 3 \<and> \<not> is_driver two_and_network 3
   \<and> bennett_mapping_strategy two_and_network
       = [(3, compute_action), (4, compute_action), (3, uncompute_action)]
   \<and> \<not> adjacent_steps (3, compute_action) (3, uncompute_action)
         (bennett_mapping_strategy two_and_network)"
  by (simp add: bennett_mapping_strategy_def two_and_network_def bennett_visit_def
      vector_insert_def is_driver_def get_node_def gate_node_def)

text \<open>
  Claim C2, amended: the step stream of the Bennett strategy is the Compute steps of all
  scheduled nodes in topological order, followed by the Uncompute steps of those that
  drive no output, in reverse topological order. So Uncompute(n) comes after Compute(n),
  with the Compute steps of all later nodes and the Uncompute steps of the later
  non-drivers in between.
\<close>

theorem bennett_compute_all_then_uncompute_reversed:
  "bennett_mapping_strategy ntk =
     map (\<lambda>n. (n, compute_action)) (filter (gate_node ntk) (topo_nodes ntk))
     @ rev (map (\<lambda>n. (n, uncompute_action))
         (filter (\<lambda>n. gate_node ntk n \<and> \<not> is_driver ntk n) (topo_nodes ntk)))"
  by (simp add: bennett_steps conj_commute)


section \<open>The ancilla pool under the driver\<close>

lemma emit_fields [simp]:
  "required_ancillae (emit es s) = required_ancillae s"
  "free_ancillae (emit es s) = free_ancillae s"
  "node_to_qubit (emit es s) = node_to_qubit s"
  "num_qubits (emit es s) = num_qubits s"
  "events (emit es s) = events s @ es"
  by (simp_all add: emit_def)

lemma add_qubit_fields [simp]:
  "required_ancillae (add_qubit s) = required_ancillae s"
  "free_ancillae (add_qubit s) = free_ancillae s"
  "node_to_qubit (add_qubit s) = node_to_qubit s"
  "num_qubits (add_qubit s) = num_qubits s + 1"
  "events (add_qubit s) = events s"
  by (simp_all add: add_qubit_def)













section \<open>The pebbling strategy under the driver\<close>

text \<open>
  Claim C1 says that the limit passed through \<open>set_pebble_limit\<close> determines the
  schedule that is replayed. In the code the schedule is fixed by the constructor, which
  the driver calls on the network alone: the solver runs with 0 pebbles, and the limit
  that arrives later is stored and never read. Whatever the configured limit, the steps
  replayed are those of the solver for 0 pebbles.
\<close>

theorem pebbling_replays_schedule_of_zero_pebbles:
  "strategy_steps solver Pebbling ntk ps = solver ntk 0
   \<and> limit (set_pebble_limit (pebble_limit ps) (pebbling_mapping_strategy solver ntk 0))
       = pebble_limit ps
   \<and> foreach_step (set_pebble_limit (pebble_limit ps) (pebbling_mapping_strategy solver ntk 0))
       = foreach_step (pebbling_mapping_strategy solver ntk 0)"
  by (simp add: strategy_steps_def foreach_step_def set_pebble_limit_def
      pebbling_mapping_strategy_def)


section \<open>The in-place strategy\<close>









section \<open>Expansion of gates\<close>



lemma lit_node_pol [simp]:
  "lit_node (2 * a + (if p then 1 else 0)) = a"
  "lit_pol (2 * a + (if p then 1 else 0)) = p"
  by (simp_all add: lit_node_def lit_pol_def)






section \<open>Compute and uncompute\<close>




section \<open>The in-place target mismatch\<close>




lemma cerr_lines_upd [simp]:
  "cerr_lines (s \<lparr> node_to_qubit := m \<rparr>) = cerr_lines s"
  "qnet_gates (s \<lparr> node_to_qubit := m \<rparr>) = qnet_gates s"
  by (simp_all add: cerr_lines_def qnet_gates_def)





end
